theory Spec2Isabelle
  imports Main
begin

section \<open>Data model of the WhatsApp REST server (src/index.js)\<close>

text \<open>
  The server keeps four process-wide variables: the client handle \<open>sock\<close>, the
  \<open>connectionState\<close> object, the \<open>chats\<close> array and the \<open>messagesStore\<close> object.
  They are the fields of the record \<open>server\<close>; every handler takes the record and
  returns the updated one, together with the HTTP response and the trace of the calls it
  made to the protocol client, the file system and the timer.
\<close>

subsection \<open>JavaScript values and errors\<close>

text \<open>
  A thrown JavaScript error; \<open>message_of\<close> is its \<open>message\<close> property.
\<close>

datatype error = Error string | TypeError string | URIError string

fun message_of :: "error \<Rightarrow> string" where
  "message_of (Error m) = m"
| "message_of (TypeError m) = m"
| "message_of (URIError m) = m"

text \<open>
  A field of a JSON request body. \<open>Undefined\<close> is an absent field, \<open>Obj\<close> stands for
  any array or object, \<open>Num\<close> for a number (only 0 is falsy; a fraction behaves as any
  other non-zero number).
\<close>

datatype jsval = Undefined | Null | Bool bool | Num int | Str string | Obj

text \<open>JavaScript truthiness, as used by \<open>!x\<close>, \<open>x || y\<close> and \<open>if (x)\<close>.\<close>

fun truthy_val :: "jsval \<Rightarrow> bool" where
  "truthy_val Undefined = False"
| "truthy_val Null = False"
| "truthy_val (Bool b) = b"
| "truthy_val (Num n) = (n \<noteq> 0)"
| "truthy_val (Str s) = (s \<noteq> [])"
| "truthy_val Obj = True"

text \<open>
  An optional string (\<open>null\<close> or a string): \<open>null\<close> and the empty string are falsy.
\<close>

fun truthy :: "string option \<Rightarrow> bool" where
  "truthy None = False"
| "truthy (Some s) = (s \<noteq> [])"

subsection \<open>State\<close>

record ConnectionState =
  connected :: bool
  connecting :: bool
  pairingCode :: "string option"
  phoneNumber :: "string option"
  error :: "string option"
  qr :: "string option"

definition initial_connectionState :: ConnectionState where
  "initial_connectionState =
     \<lparr>connected = False, connecting = False, pairingCode = None,
      phoneNumber = None, error = None, qr = None\<rparr>"

record LastMessage =
  lm_body :: string
  lm_timestamp :: int

record Chat =
  chat_id :: string
  chat_name :: string
  isGroup :: bool
  chat_timestamp :: int
  lastMessage :: "LastMessage option"

text \<open>
  A cached message record. Records built from inbound messages carry \<open>from\<close> and
  \<open>type\<close>; the record built by the send endpoint has neither field.
\<close>

record Message =
  msg_id :: string
  body :: string
  from_jid :: "string option"
  timestamp :: int
  isOutgoing :: bool
  msg_type :: "string option"

datatype socket = WASocket

record server =
  sock :: "socket option"
  connectionState :: ConnectionState
  chats :: "Chat list"
  messagesStore :: "string \<rightharpoonup> Message list"

subsection \<open>Responses and effect traces\<close>

record Contact =
  contact_id :: string
  contact_name :: string
  number :: string
  contact_isGroup :: bool

text \<open>
  What \<open>messagesStore[k]\<close> evaluates to. \<open>messagesStore\<close> is created by the object
  literal \<open>{}\<close>, so a key that is not an own property is looked up in
  \<open>Object.prototype\<close>: \<open>Inherited k\<close> is the (truthy, non-array) value found there.
\<close>

datatype store_value = Absent | Own "Message list" | Inherited string

datatype payload =
    Failure string
  | PairingCode string
  | AlreadyConnected
  | ChatList "Chat list"
  | MessageList store_value
  | SentMessage Message
  | ContactList "Contact list"
  | Disconnected

record response =
  status :: nat
  json :: payload

text \<open>
  The JSON bodies the handlers send. \<open>Failure m\<close> is \<open>{success:false, message:m}\<close>;
  every other constructor is a \<open>success:true\<close> body: \<open>PairingCode c\<close> carries
  \<open>pairingCode:c\<close> and the fixed instruction text, \<open>AlreadyConnected\<close> is
  \<open>{success:true, message:'Already connected', connected:true}\<close>, \<open>MessageList v\<close> is
  \<open>{success:true, messages:v}\<close>, \<open>Disconnected\<close> carries the fixed text
  'Disconnected successfully'.
\<close>

datatype call =
    UseMultiFileAuthState
  | FetchLatestBaileysVersion
  | MakeWASocket
  | RequestPairingCode string
  | SendMessage string string
  | Logout
  | RmSync
  | MkdirSync
  | Sleep nat

type_synonym result = "response \<times> server \<times> call list"

definition failure :: "nat \<Rightarrow> string \<Rightarrow> response" where
  "failure code m = \<lparr>status = code, json = Failure m\<rparr>"

definition ok :: "payload \<Rightarrow> response" where
  "ok p = \<lparr>status = 200, json = p\<rparr>"

section \<open>Built-in functions the handlers call\<close>

subsection \<open>decodeURIComponent\<close>

text \<open>
  The ECMAScript built-in, on strings held as their UTF-8 bytes. An escape \<open>%XY\<close> needs
  two hexadecimal digits; the octets written by consecutive escapes must form the UTF-8
  encoding of one code point (no stray continuation octet, no overlong form, no surrogate,
  nothing above U+10FFFF); every other character is copied. Any violation throws a
  \<open>URIError\<close>.
\<close>

definition hex_digit :: "char \<Rightarrow> nat option" where
  "hex_digit c =
     (let n = (of_char c :: nat) in
      if 48 \<le> n \<and> n \<le> 57 then Some (n - 48)
      else if 65 \<le> n \<and> n \<le> 70 then Some (n - 55)
      else if 97 \<le> n \<and> n \<le> 102 then Some (n - 87)
      else None)"

datatype token = Raw char | Escaped nat

fun tokens :: "string \<Rightarrow> token list option" where
  "tokens [] = Some []"
| "tokens (c # cs) =
     (if c = CHR ''%'' then
        (case cs of
           h # l # rest \<Rightarrow>
             (case (hex_digit h, hex_digit l) of
                (Some a, Some b) \<Rightarrow> map_option ((#) (Escaped (16 * a + b))) (tokens rest)
              | _ \<Rightarrow> None)
         | _ \<Rightarrow> None)
      else map_option ((#) (Raw c)) (tokens cs))"

definition valid_code_point :: "nat \<Rightarrow> nat \<Rightarrow> bool" where
  "valid_code_point n cp =
     (if n = 2 then 128 \<le> cp
      else if n = 3 then 2048 \<le> cp \<and> \<not> (55296 \<le> cp \<and> cp \<le> 57343)
      else 65536 \<le> cp \<and> cp \<le> 1114111)"

text \<open>
  \<open>octets k n cp ts\<close>: \<open>k\<close> continuation octets of an \<open>n\<close>-octet sequence are still
  expected, \<open>cp\<close> holds the bits read so far.
\<close>

fun octets :: "nat \<Rightarrow> nat \<Rightarrow> nat \<Rightarrow> token list \<Rightarrow> string option" where
  "octets 0 n cp [] = Some []"
| "octets (Suc k) n cp [] = None"
| "octets 0 n cp (Raw c # ts) = map_option ((#) c) (octets 0 0 0 ts)"
| "octets (Suc k) n cp (Raw c # ts) = None"
| "octets 0 n cp (Escaped b # ts) =
     (if b < 128 then map_option ((#) (char_of b)) (octets 0 0 0 ts)
      else if 192 \<le> b \<and> b < 224 then map_option ((#) (char_of b)) (octets 1 2 (b mod 32) ts)
      else if 224 \<le> b \<and> b < 240 then map_option ((#) (char_of b)) (octets 2 3 (b mod 16) ts)
      else if 240 \<le> b \<and> b < 248 then map_option ((#) (char_of b)) (octets 3 4 (b mod 8) ts)
      else None)"
| "octets (Suc k) n cp (Escaped b # ts) =
     (if 128 \<le> b \<and> b < 192 then
        (let cp' = cp * 64 + b mod 64 in
         if k = 0 then
           (if valid_code_point n cp' then map_option ((#) (char_of b)) (octets 0 0 0 ts)
            else None)
         else map_option ((#) (char_of b)) (octets k n cp' ts))
      else None)"

definition decodeURIComponent :: "string \<Rightarrow> error + string" where
  "decodeURIComponent s =
     (case tokens s of
        None \<Rightarrow> Inl (URIError ''URI malformed'')
      | Some ts \<Rightarrow>
          (case octets 0 0 0 ts of
             None \<Rightarrow> Inl (URIError ''URI malformed'')
           | Some d \<Rightarrow> Inr d))"

subsection \<open>String methods\<close>

text \<open>\<open>s.replace(/\D/g, '')\<close>: \<open>\D\<close> is every character outside \<open>0\<close>..\<open>9\<close>.\<close>

definition strip_non_digits :: "string \<Rightarrow> string" where
  "strip_non_digits s = filter (\<lambda>c. c \<in> set ''0123456789'') s"

text \<open>\<open>s.split('@')[0]\<close>: the part before the first \<open>@\<close>.\<close>

definition before_at :: "string \<Rightarrow> string" where
  "before_at s = takeWhile (\<lambda>c. c \<noteq> CHR ''@'') s"

definition endsWith :: "string \<Rightarrow> string \<Rightarrow> bool" where
  "endsWith s suffix =
     (length suffix \<le> length s \<and> drop (length s - length suffix) s = suffix)"

subsection \<open>Property lookup in messagesStore\<close>

definition object_prototype_keys :: "string list" where
  "object_prototype_keys =
     [''constructor'', ''__defineGetter__'', ''__defineSetter__'', ''hasOwnProperty'',
      ''__lookupGetter__'', ''__lookupSetter__'', ''isPrototypeOf'',
      ''propertyIsEnumerable'', ''toString'', ''valueOf'', ''__proto__'',
      ''toLocaleString'']"

definition lookup :: "(string \<rightharpoonup> Message list) \<Rightarrow> string \<Rightarrow> store_value" where
  "lookup store k =
     (case store k of
        Some ms \<Rightarrow> Own ms
      | None \<Rightarrow> if k \<in> set object_prototype_keys then Inherited k else Absent)"

section \<open>Read endpoints\<close>

definition not_connected :: response where
  "not_connected = failure 503 ''WhatsApp not connected''"

text \<open>GET /api/chats\<close>

definition get_chats :: "server \<Rightarrow> result" where
  "get_chats st =
     (if \<not> connected (connectionState st) then (not_connected, st, [])
      else (ok (ChatList (chats st)), st, []))"

text \<open>
  GET /api/chats/:chatId/messages. \<open>messagesStore[decodedChatId] || []\<close> keeps every
  truthy value, so only an absent property is replaced by the empty array.
\<close>

definition get_messages :: "server \<Rightarrow> string \<Rightarrow> result" where
  "get_messages st chatId =
     (if \<not> connected (connectionState st) then (not_connected, st, [])
      else
        (case decodeURIComponent chatId of
           Inl e \<Rightarrow> (failure 500 (message_of e), st, [])
         | Inr decodedChatId \<Rightarrow>
             (let chatMessages =
                (case lookup (messagesStore st) decodedChatId of
                   Absent \<Rightarrow> Own []
                 | v \<Rightarrow> v)
              in (ok (MessageList chatMessages), st, []))))"

text \<open>GET /api/contacts\<close>

definition contact_of :: "Chat \<Rightarrow> Contact" where
  "contact_of chat =
     \<lparr>contact_id = chat_id chat, contact_name = chat_name chat,
      number = before_at (chat_id chat), contact_isGroup = isGroup chat\<rparr>"

definition get_contacts :: "server \<Rightarrow> result" where
  "get_contacts st =
     (if \<not> connected (connectionState st) then (not_connected, st, [])
      else (ok (ContactList (map contact_of (chats st))), st, []))"

section \<open>POST /api/chats/:chatId/messages\<close>

text \<open>
  The outcome of \<open>sock.sendMessage(jid, {text})\<close> (the \<open>key.id\<close> of the message it
  returns, or the error it throws) and the clock read by \<open>Date.now()\<close>, in
  milliseconds. The \<open>message\<close> field of the request body is a string or absent.
\<close>

record send_env =
  sendMessage :: "string \<Rightarrow> string \<Rightarrow> error + string"
  now :: int

fun text_of :: "string option \<Rightarrow> string" where
  "text_of None = []"
| "text_of (Some s) = s"

text \<open>
  \<open>if (!messagesStore[k]) messagesStore[k] = []; messagesStore[k].push(m)\<close>: an absent
  property is created, an own array is extended, and on an inherited value, which is
  truthy and has no \<open>push\<close>, the call throws before anything is stored. The message of
  the \<open>TypeError\<close> quotes the expression, so it carries the name \<open>var\<close> of the variable
  that holds the key at the call site.
\<close>

definition cache_message :: "string \<Rightarrow> (string \<rightharpoonup> Message list) \<Rightarrow> string \<Rightarrow> Message \<Rightarrow> error + (string \<rightharpoonup> Message list)" where
  "cache_message var store k m =
     (case lookup store k of
        Absent \<Rightarrow> Inr (store(k \<mapsto> [m]))
      | Own ms \<Rightarrow> Inr (store(k \<mapsto> ms @ [m]))
      | Inherited _ \<Rightarrow>
          Inl (TypeError (''messagesStore['' @ var @ ''].push is not a function'')))"

definition send_message :: "send_env \<Rightarrow> server \<Rightarrow> string \<Rightarrow> string option \<Rightarrow> result" where
  "send_message env st chatId message =
     (if \<not> connected (connectionState st) then (not_connected, st, [])
      else
        (case decodeURIComponent chatId of
           Inl e \<Rightarrow> (failure 500 (message_of e), st, [])
         | Inr decodedChatId \<Rightarrow>
             if \<not> truthy message then (failure 400 ''Message content is required'', st, [])
             else
               (case sock st of
                  None \<Rightarrow>
                    (failure 500 ''Cannot read properties of null (reading 'sendMessage')'',
                     st, [])
                | Some _ \<Rightarrow>
                    (case sendMessage env decodedChatId (text_of message) of
                       Inl e \<Rightarrow>
                         (failure 500 (message_of e), st,
                          [SendMessage decodedChatId (text_of message)])
                     | Inr sent_id \<Rightarrow>
                         (let messageData =
                            \<lparr>msg_id = sent_id, body = text_of message, from_jid = None,
                             timestamp = now env div 1000, isOutgoing = True,
                             msg_type = None\<rparr>
                          in case cache_message ''decodedChatId'' (messagesStore st) decodedChatId
                                    messageData of
                               Inl e \<Rightarrow>
                                 (failure 500 (message_of e), st,
                                  [SendMessage decodedChatId (text_of message)])
                             | Inr store' \<Rightarrow>
                                 (ok (SentMessage messageData),
                                  st\<lparr>messagesStore := store'\<rparr>,
                                  [SendMessage decodedChatId (text_of message)]))))))"

section \<open>Event handlers registered by connectToWhatsApp\<close>

subsection \<open>The handler of messages.upsert\<close>

datatype ExtendedTextMessage = ExtendedTextMessage (etm_text: "string option")
datatype ImageMessage = ImageMessage (caption: "string option")

text \<open>
  The \<open>message\<close> object of an inbound message: the three content fields the handler
  reads, and \<open>Object.keys\<close> of the object in its own order.
\<close>

record MessageContent =
  conversation :: "string option"
  extendedTextMessage :: "ExtendedTextMessage option"
  imageMessage :: "ImageMessage option"
  keys :: "string list"

record MessageKey =
  remoteJid :: string
  key_id :: string
  fromMe :: bool

record WAMessage =
  key :: MessageKey
  message :: "MessageContent option"
  messageTimestamp :: int

datatype upsert_type = Notify | Append

text \<open>\<open>a || b\<close> on an optional string \<open>a\<close> and a string \<open>b\<close>.\<close>

fun or_else :: "string option \<Rightarrow> string \<Rightarrow> string" where
  "or_else None d = d"
| "or_else (Some s) d = (if s = [] then d else s)"

text \<open>The optional chains \<open>msg.message?.f\<close> and \<open>msg.message?.f?.g\<close>.\<close>

definition conversation_of :: "WAMessage \<Rightarrow> string option" where
  "conversation_of msg = Option.bind (message msg) conversation"

definition extended_text_of :: "WAMessage \<Rightarrow> string option" where
  "extended_text_of msg =
     Option.bind (Option.bind (message msg) extendedTextMessage) etm_text"

definition image_caption_of :: "WAMessage \<Rightarrow> string option" where
  "image_caption_of msg = Option.bind (Option.bind (message msg) imageMessage) caption"

definition first_key :: "WAMessage \<Rightarrow> string option" where
  "first_key msg =
     (case message msg of
        None \<Rightarrow> None
      | Some content \<Rightarrow> (case keys content of [] \<Rightarrow> None | k # _ \<Rightarrow> Some k))"

definition messageData_of :: "WAMessage \<Rightarrow> Message" where
  "messageData_of msg =
     \<lparr>msg_id = key_id (key msg),
      body = or_else (conversation_of msg)
               (or_else (extended_text_of msg)
                  (or_else (image_caption_of msg) ''[Media]'')),
      from_jid = Some (remoteJid (key msg)),
      timestamp = messageTimestamp msg,
      isOutgoing = fromMe (key msg),
      msg_type = first_key msg\<rparr>"


text \<open>
  \<open>updateChatWithMessage\<close>: \<open>chats.find\<close> returns the first chat with the id, which is
  then updated in place; otherwise a new chat is put at the front (\<open>unshift\<close>).
\<close>

definition touch :: "Message \<Rightarrow> Chat \<Rightarrow> Chat" where
  "touch m c =
     c\<lparr>lastMessage := Some \<lparr>lm_body = body m, lm_timestamp = timestamp m\<rparr>,
       chat_timestamp := timestamp m\<rparr>"

fun update_existing :: "string \<Rightarrow> Message \<Rightarrow> Chat list \<Rightarrow> Chat list" where
  "update_existing chatId m [] = []"
| "update_existing chatId m (c # cs) =
     (if chat_id c = chatId then touch m c # cs else c # update_existing chatId m cs)"

definition new_chat :: "string \<Rightarrow> Message \<Rightarrow> Chat" where
  "new_chat chatId m =
     \<lparr>chat_id = chatId, chat_name = before_at chatId,
      isGroup = endsWith chatId ''@g.us'', chat_timestamp = timestamp m,
      lastMessage = Some \<lparr>lm_body = body m, lm_timestamp = timestamp m\<rparr>\<rparr>"

definition updateChatWithMessage :: "string \<Rightarrow> Message \<Rightarrow> Chat list \<Rightarrow> Chat list" where
  "updateChatWithMessage chatId m cs =
     (case find (\<lambda>c. chat_id c = chatId) cs of
        Some existingChat \<Rightarrow> update_existing chatId m cs
      | None \<Rightarrow> new_chat chatId m # cs)"

text \<open>
  One iteration of the \<open>for\<close> loop of the handler, and the loop. A throw leaves the
  loop; what was stored before stays.
\<close>

definition upsert_one :: "WAMessage \<Rightarrow> server \<Rightarrow> (error + unit) \<times> server" where
  "upsert_one msg st =
     (let chatId = remoteJid (key msg); messageData = messageData_of msg
      in case cache_message ''chatId'' (messagesStore st) chatId messageData of
           Inl e \<Rightarrow> (Inl e, st)
         | Inr store' \<Rightarrow>
             (Inr (),
              st\<lparr>messagesStore := store',
                 chats := updateChatWithMessage chatId messageData (chats st)\<rparr>))"

fun upsert_all :: "WAMessage list \<Rightarrow> server \<Rightarrow> (error + unit) \<times> server" where
  "upsert_all [] st = (Inr (), st)"
| "upsert_all (msg # msgs) st =
     (case upsert_one msg st of
        (Inl e, st') \<Rightarrow> (Inl e, st')
      | (Inr _, st') \<Rightarrow> upsert_all msgs st')"

definition on_messages_upsert :: "upsert_type \<Rightarrow> WAMessage list \<Rightarrow> server \<Rightarrow> (error + unit) \<times> server" where
  "on_messages_upsert type_u msgs st =
     (if type_u = Notify then upsert_all msgs st else (Inr (), st))"

subsection \<open>The handler of connection.update\<close>

datatype connection = Close | Open | Connecting

text \<open>
  A connection update: \<open>connection\<close> may be absent; \<open>loggedOut\<close> says whether
  \<open>lastDisconnect?.error?.output?.statusCode\<close> is \<open>DisconnectReason.loggedOut\<close>.
\<close>

record ConnectionUpdate =
  connection :: "connection option"
  loggedOut :: bool
  qr_code :: "string option"

record Group =
  group_id :: string
  subject :: "string option"
  creation :: int

definition chat_of_group :: "Group \<Rightarrow> Chat" where
  "chat_of_group g =
     \<lparr>chat_id = group_id g, chat_name = or_else (subject g) ''Unknown'', isGroup = True,
      chat_timestamp = creation g, lastMessage = None\<rparr>"

text \<open>\<open>loadChats\<close>, given the outcome of \<open>sock.groupFetchAllParticipating()\<close>.\<close>

definition loadChats :: "error + Group list \<Rightarrow> server \<Rightarrow> server" where
  "loadChats fetched st =
     (case sock st of
        None \<Rightarrow> st
      | Some _ \<Rightarrow>
          (case fetched of
             Inl e \<Rightarrow> st
           | Inr groups \<Rightarrow> st\<lparr>chats := map chat_of_group groups\<rparr>))"

text \<open>
  The handler of connection updates. On a close that is not a logout it only arms the
  3-second reconnect timer, which changes no state by itself.
\<close>

definition on_connection_update :: "error + Group list \<Rightarrow> ConnectionUpdate \<Rightarrow> server \<Rightarrow> server" where
  "on_connection_update fetched u st =
     (let st1 = (if truthy (qr_code u)
                 then st\<lparr>connectionState := (connectionState st)\<lparr>qr := qr_code u\<rparr>\<rparr>
                 else st)
      in case connection u of
           Some Close \<Rightarrow>
             (let st2 = st1\<lparr>connectionState :=
                          (connectionState st1)\<lparr>connected := False, connecting := False\<rparr>\<rparr>
              in if \<not> loggedOut u then st2
                 else st2\<lparr>connectionState := (connectionState st2)\<lparr>error := Some ''Logged out''\<rparr>,
                         sock := None\<rparr>)
         | Some Open \<Rightarrow>
             loadChats fetched
               (st1\<lparr>connectionState :=
                  (connectionState st1)\<lparr>connected := True, connecting := False,
                     pairingCode := None, qr := None, error := None\<rparr>\<rparr>)
         | _ \<Rightarrow> st1)"

section \<open>connectToWhatsApp\<close>

text \<open>
  The outcomes of the library calls of \<open>connectToWhatsApp\<close>
  (\<open>useMultiFileAuthState\<close> returns the \<open>creds.registered\<close> flag), and what the
  event handlers, timers and other requests do to the state while the caller is suspended
  in a timer: \<open>ready_wait\<close> during the 2-second wait before the pairing request,
  \<open>poll_wait k\<close> during the 500 ms wait that follows the \<open>k\<close>-th check of the poll
  loop (counted from 0). An awaited library call is one step: its outcome is all that is
  seen of it.
\<close>

record connect_env =
  useMultiFileAuthState :: "error + bool"
  fetchLatestBaileysVersion :: "error + unit"
  makeWASocket :: "error + unit"
  requestPairingCode :: "string \<Rightarrow> error + string"
  ready_wait :: "server \<Rightarrow> server"
  poll_wait :: "nat \<Rightarrow> server \<Rightarrow> server"

definition connect_failed :: "error \<Rightarrow> server \<Rightarrow> server" where
  "connect_failed e st =
     st\<lparr>connectionState :=
          (connectionState st)\<lparr>error := Some (message_of e), connecting := False\<rparr>\<rparr>"

text \<open>The inner \<open>try\<close> block: the pairing request, whose failure is recorded, not rethrown.\<close>

definition request_code :: "string \<Rightarrow> connect_env \<Rightarrow> server \<Rightarrow> server \<times> call list" where
  "request_code phone env st =
     (case sock st of
        None \<Rightarrow>
          (connect_failed
             (TypeError ''Cannot read properties of null (reading 'requestPairingCode')'') st,
           [])
      | Some _ \<Rightarrow>
          (case requestPairingCode env phone of
             Inl err \<Rightarrow> (connect_failed err st, [RequestPairingCode phone])
           | Inr code \<Rightarrow>
               (st\<lparr>connectionState := (connectionState st)\<lparr>pairingCode := Some code\<rparr>\<rparr>,
                [RequestPairingCode phone])))"

definition connectToWhatsApp :: "string \<Rightarrow> connect_env \<Rightarrow> server \<Rightarrow> (error + unit) \<times> server \<times> call list" where
  "connectToWhatsApp phone env st =
     (case useMultiFileAuthState env of
        Inl e \<Rightarrow> (Inl e, connect_failed e st, [UseMultiFileAuthState])
      | Inr registered \<Rightarrow>
          (case fetchLatestBaileysVersion env of
             Inl e \<Rightarrow>
               (Inl e, connect_failed e st, [UseMultiFileAuthState, FetchLatestBaileysVersion])
           | Inr _ \<Rightarrow>
               (case makeWASocket env of
                  Inl e \<Rightarrow>
                    (Inl e, connect_failed e st,
                     [UseMultiFileAuthState, FetchLatestBaileysVersion, MakeWASocket])
                | Inr _ \<Rightarrow>
                    (let st1 = st\<lparr>sock := Some WASocket\<rparr>
                     in if phone \<noteq> [] \<and> \<not> registered then
                          (let st2 = ready_wait env
                                 (st1\<lparr>connectionState :=
                                        (connectionState st1)\<lparr>connecting := True\<rparr>\<rparr>);
                               (st3, t) = request_code phone env st2
                           in (Inr (), st3,
                               [UseMultiFileAuthState, FetchLatestBaileysVersion, MakeWASocket,
                                Sleep 2000] @ t))
                        else
                          (Inr (), st1,
                           [UseMultiFileAuthState, FetchLatestBaileysVersion, MakeWASocket])))))"

section \<open>POST /api/request-pairing-code\<close>

definition maxAttempts :: nat where
  "maxAttempts = 30"

text \<open>
  The \<open>while\<close> loop and the \<open>if\<close> after it. \<open>attempts\<close> counts the waits done so far;
  the state is read again after every wait.
\<close>

function poll :: "(nat \<Rightarrow> server \<Rightarrow> server) \<Rightarrow> nat \<Rightarrow> server \<Rightarrow> result" where
  "poll wait attempts st =
     (if \<not> truthy (pairingCode (connectionState st)) \<and> attempts < maxAttempts then
        (if truthy (error (connectionState st)) then
           (failure 500 (text_of (error (connectionState st))), st, [])
         else if connected (connectionState st) then (ok AlreadyConnected, st, [])
         else
           (case poll wait (attempts + 1) (wait attempts st) of
              (res, st', t) \<Rightarrow> (res, st', Sleep 500 # t)))
      else if truthy (pairingCode (connectionState st)) then
        (ok (PairingCode (text_of (pairingCode (connectionState st)))), st, [])
      else (failure 408 ''Timeout waiting for pairing code. Please try again.'', st, []))"
  by pat_completeness auto
termination
  by (relation "measure (\<lambda>(wait, attempts, st). maxAttempts - attempts)") auto

declare poll.simps [simp del]

text \<open>The \<open>catch\<close> block of the handler.\<close>

definition pairing_failed :: "error \<Rightarrow> server \<Rightarrow> response \<times> server" where
  "pairing_failed e st =
     (failure 500 (if message_of e = [] then ''Failed to generate pairing code''
                   else message_of e),
      st\<lparr>connectionState :=
           (connectionState st)\<lparr>connecting := False, error := Some (message_of e)\<rparr>\<rparr>)"

text \<open>The four assignments that precede the connection attempt.\<close>

definition start_pairing :: "string \<Rightarrow> server \<Rightarrow> server" where
  "start_pairing cleanPhone st =
     st\<lparr>connectionState :=
          (connectionState st)\<lparr>phoneNumber := Some cleanPhone, connecting := True,
             error := None, pairingCode := None\<rparr>\<rparr>"

definition request_pairing_code :: "connect_env \<Rightarrow> server \<Rightarrow> jsval \<Rightarrow> result" where
  "request_pairing_code env st phone_field =
     (if \<not> truthy_val phone_field then (failure 400 ''Phone number is required'', st, [])
      else
        (case phone_field of
           Str s \<Rightarrow>
             (let cleanPhone = strip_non_digits s
              in if length cleanPhone < 10 then
                   (failure 400 ''Invalid phone number format'', st, [])
                 else
                   (case connectToWhatsApp cleanPhone env (start_pairing cleanPhone st) of
                      (Inl e, st2, t) \<Rightarrow>
                        (case pairing_failed e st2 of (res, st3) \<Rightarrow> (res, st3, t))
                    | (Inr _, st2, t) \<Rightarrow>
                        (case poll (poll_wait env) 0 st2 of
                           (res, st3, t') \<Rightarrow> (res, st3, t @ t'))))
         | _ \<Rightarrow>
             (case pairing_failed (TypeError ''phoneNumber.replace is not a function'') st of
                (res, st') \<Rightarrow> (res, st', []))))"

text \<open>
  The state the poll loop reads at its \<open>k\<close>-th check when no earlier check ended the
  loop: the state after \<open>k\<close> waits.
\<close>

fun observed :: "(nat \<Rightarrow> server \<Rightarrow> server) \<Rightarrow> server \<Rightarrow> nat \<Rightarrow> server" where
  "observed wait st 0 = st"
| "observed wait st (Suc k) = wait k (observed wait st k)"

text \<open>A check at which the loop neither returns nor leaves.\<close>

definition quiet :: "server \<Rightarrow> bool" where
  "quiet st =
     (\<not> truthy (pairingCode (connectionState st)) \<and>
      \<not> truthy (error (connectionState st)) \<and>
      \<not> connected (connectionState st))"

section \<open>POST /api/disconnect\<close>

text \<open>
  The outcomes of the external calls of the handler: \<open>sock.logout()\<close>,
  \<open>fs.existsSync(SESSION_DIR)\<close>, \<open>fs.rmSync\<close> and \<open>fs.mkdirSync\<close>.
\<close>

record disconnect_env =
  logout :: "error + unit"
  existsSync :: bool
  rmSync :: "error + unit"
  mkdirSync :: "error + unit"

text \<open>The first statement of the \<open>try\<close> block: log the client out, if there is one.\<close>

definition disconnect_logout :: "disconnect_env \<Rightarrow> server \<Rightarrow> (error + unit) \<times> server \<times> call list" where
  "disconnect_logout env st =
     (case sock st of
        None \<Rightarrow> (Inr (), st, [])
      | Some _ \<Rightarrow>
          (case logout env of
             Inl e \<Rightarrow> (Inl e, st, [Logout])
           | Inr _ \<Rightarrow> (Inr (), st\<lparr>sock := None\<rparr>, [Logout])))"

definition clear_session_files :: "disconnect_env \<Rightarrow> (error + unit) \<times> call list" where
  "clear_session_files env =
     (if existsSync env then
        (case rmSync env of
           Inl e \<Rightarrow> (Inl e, [RmSync])
         | Inr _ \<Rightarrow>
             (case mkdirSync env of
                Inl e \<Rightarrow> (Inl e, [RmSync, MkdirSync])
              | Inr _ \<Rightarrow> (Inr (), [RmSync, MkdirSync])))
      else (Inr (), []))"

definition disconnect :: "disconnect_env \<Rightarrow> server \<Rightarrow> result" where
  "disconnect env st =
     (case disconnect_logout env st of
        (Inl e, st1, t1) \<Rightarrow> (failure 500 (message_of e), st1, t1)
      | (Inr _, st1, t1) \<Rightarrow>
          (case clear_session_files env of
             (Inl e, t2) \<Rightarrow> (failure 500 (message_of e), st1, t1 @ t2)
           | (Inr _, t2) \<Rightarrow>
               (ok Disconnected,
                st1\<lparr>connectionState := initial_connectionState,
                    chats := [], messagesStore := Map.empty\<rparr>,
                t1 @ t2)))"

section \<open>Example states and environments\<close>

definition fresh_server :: server where
  "fresh_server =
     \<lparr>sock = None, connectionState = initial_connectionState,
      chats = [], messagesStore = Map.empty\<rparr>"

definition linked_server :: server where
  "linked_server =
     fresh_server\<lparr>sock := Some WASocket,
       connectionState := initial_connectionState\<lparr>connected := True\<rparr>\<rparr>"

definition calm_disconnect_env :: disconnect_env where
  "calm_disconnect_env =
     \<lparr>logout = Inr (), existsSync = True, rmSync = Inr (), mkdirSync = Inr ()\<rparr>"

definition failing_logout_env :: disconnect_env where
  "failing_logout_env = calm_disconnect_env\<lparr>logout := Inl (Error ''Connection Closed'')\<rparr>"

text \<open>A client that reports every send as done, whatever the id, and a clock.\<close>

definition calm_send_env :: send_env where
  "calm_send_env = \<lparr>sendMessage = (\<lambda>jid txt. Inr ''3EB0A1B2C3''), now = 1700000000123\<rparr>"

text \<open>
  Inbound messages: a text message, and an image whose \<open>conversation\<close> field is the
  empty string and whose caption is set.
\<close>

definition inbound :: "string \<Rightarrow> string \<Rightarrow> string \<Rightarrow> int \<Rightarrow> WAMessage" where
  "inbound jid mid txt ts =
     \<lparr>key = \<lparr>remoteJid = jid, key_id = mid, fromMe = False\<rparr>,
      message = Some \<lparr>conversation = Some txt, extendedTextMessage = None,
                      imageMessage = None, keys = [''conversation'']\<rparr>,
      messageTimestamp = ts\<rparr>"






text \<open>
  Environments of a pairing request. In \<open>unregistered_env\<close> the account is not
  registered and the client returns a pairing code; in \<open>refusing_env\<close> the client
  refuses the pairing request; in \<open>registered_env\<close> the stored credentials are
  registered, so no code is requested, and nothing happens during the waits; in
  \<open>opening_env\<close> the connection opens during the first wait of the poll; in
  \<open>late_logout_env\<close> the connection is closed as logged out during the last wait.
\<close>

definition unregistered_env :: connect_env where
  "unregistered_env =
     \<lparr>useMultiFileAuthState = Inr False, fetchLatestBaileysVersion = Inr (),
      makeWASocket = Inr (), requestPairingCode = (\<lambda>phone. Inr ''ABCD1234''),
      ready_wait = (\<lambda>st. st), poll_wait = (\<lambda>k st. st)\<rparr>"

definition refusing_env :: connect_env where
  "refusing_env =
     unregistered_env\<lparr>requestPairingCode := (\<lambda>phone. Inl (Error ''rate-overlimit''))\<rparr>"

definition registered_env :: connect_env where
  "registered_env = unregistered_env\<lparr>useMultiFileAuthState := Inr True\<rparr>"

definition opened :: ConnectionUpdate where
  "opened = \<lparr>connection = Some Open, loggedOut = False, qr_code = None\<rparr>"

definition closed_logged_out :: ConnectionUpdate where
  "closed_logged_out = \<lparr>connection = Some Close, loggedOut = True, qr_code = None\<rparr>"

definition opening_env :: connect_env where
  "opening_env =
     registered_env\<lparr>poll_wait :=
       (\<lambda>k st. if k = 0 then on_connection_update (Inr []) opened st else st)\<rparr>"

definition late_logout_env :: connect_env where
  "late_logout_env =
     registered_env\<lparr>poll_wait :=
       (\<lambda>k st. if k = 29 then on_connection_update (Inr []) closed_logged_out st else st)\<rparr>"

section \<open>Theorems\<close>

subsection \<open>Disconnect\<close>

text \<open>
  C1 (as amended). A disconnect in which no external call fails (there is no client or its
  logout succeeds, and the session directory is removed and recreated without error)
  answers 200 and leaves \<open>connectionState\<close> equal to its initial value, \<open>chats\<close> empty
  and \<open>messagesStore\<close> empty, whatever they were before. When there is a client and its
  logout throws, the handler answers 500 with the error's message and the state is exactly
  what it was: nothing is reset.
\<close>

theorem disconnect_resets_unless_a_call_fails:
  "((sock st = None \<or> logout env = Inr ()) \<and> fst (clear_session_files env) = Inr () \<longrightarrow>
      fst (disconnect env st) = \<lparr>status = 200, json = Disconnected\<rparr> \<and>
      connectionState (fst (snd (disconnect env st))) = initial_connectionState \<and>
      chats (fst (snd (disconnect env st))) = [] \<and>
      messagesStore (fst (snd (disconnect env st))) = Map.empty) \<and>
   (sock st \<noteq> None \<and> logout env = Inl e \<longrightarrow>
      disconnect env st = (\<lparr>status = 500, json = Failure (message_of e)\<rparr>, st, [Logout]))"
  by (cases "clear_session_files env")
     (auto simp: disconnect_def disconnect_logout_def ok_def failure_def
           split: option.splits sum.splits)

theorem disconnect_resets_unless_a_call_fails_witness:
  "(sock linked_server = None \<or> logout calm_disconnect_env = Inr ()) \<and>
   fst (clear_session_files calm_disconnect_env) = Inr () \<and>
   connectionState (fst (snd (disconnect calm_disconnect_env linked_server))) =
     initial_connectionState \<and>
   chats (fst (snd (disconnect calm_disconnect_env linked_server))) = [] \<and>
   sock linked_server \<noteq> None \<and>
   logout failing_logout_env = Inl (Error ''Connection Closed'') \<and>
   disconnect failing_logout_env linked_server =
     (\<lparr>status = 500, json = Failure ''Connection Closed''\<rparr>, linked_server, [Logout])"
proof -
  have a: "(sock linked_server = None \<or> logout calm_disconnect_env = Inr ()) \<and>
           fst (clear_session_files calm_disconnect_env) = Inr ()"
    by (simp add: calm_disconnect_env_def clear_session_files_def)
  have b: "sock linked_server \<noteq> None \<and>
           logout failing_logout_env = Inl (Error ''Connection Closed'')"
    by (simp add: linked_server_def fresh_server_def failing_logout_env_def
          calm_disconnect_env_def)
  from a b
    disconnect_resets_unless_a_call_fails
      [of linked_server calm_disconnect_env "Error ''Connection Closed''"]
    disconnect_resets_unless_a_call_fails
      [of linked_server failing_logout_env "Error ''Connection Closed''"]
  show ?thesis by simp
qed

text \<open>
  C1 as stated fails: on a connected server whose client's logout throws, the handler
  answers 500 and \<open>connectionState\<close> still says connected.
\<close>

theorem disconnect_failed_logout_counterexample:
  "status (fst (disconnect failing_logout_env linked_server)) = 500 \<and>
   connected (connectionState (fst (snd (disconnect failing_logout_env linked_server)))) \<and>
   connectionState (fst (snd (disconnect failing_logout_env linked_server)))
     \<noteq> initial_connectionState"
  by (simp add: disconnect_def disconnect_logout_def failing_logout_env_def
        calm_disconnect_env_def linked_server_def fresh_server_def
        initial_connectionState_def failure_def)

subsection \<open>Requests while disconnected\<close>

text \<open>
  C9. While \<open>connectionState.connected\<close> is false, GET /api/chats,
  GET /api/chats/:chatId/messages, POST /api/chats/:chatId/messages and GET /api/contacts
  each answer 503 with \<open>{success:false, message:'WhatsApp not connected'}\<close>, leave the
  state as it is and make no call (the trace is empty), for every chat id, request body
  and outcome the client would have given.
\<close>

theorem disconnected_requests_get_503:
  "\<not> connected (connectionState st) \<Longrightarrow>
     get_chats st = (\<lparr>status = 503, json = Failure ''WhatsApp not connected''\<rparr>, st, []) \<and>
     get_messages st chatId =
       (\<lparr>status = 503, json = Failure ''WhatsApp not connected''\<rparr>, st, []) \<and>
     send_message env st chatId text_field =
       (\<lparr>status = 503, json = Failure ''WhatsApp not connected''\<rparr>, st, []) \<and>
     get_contacts st = (\<lparr>status = 503, json = Failure ''WhatsApp not connected''\<rparr>, st, [])"
  by (simp add: get_chats_def get_messages_def send_message_def get_contacts_def
        not_connected_def failure_def)

theorem disconnected_requests_get_503_witness:
  "\<not> connected (connectionState fresh_server) \<and>
   get_chats fresh_server =
     (\<lparr>status = 503, json = Failure ''WhatsApp not connected''\<rparr>, fresh_server, []) \<and>
   send_message calm_send_env fresh_server ''123@s.whatsapp.net'' (Some ''hi'') =
     (\<lparr>status = 503, json = Failure ''WhatsApp not connected''\<rparr>, fresh_server, [])"
proof -
  have h: "\<not> connected (connectionState fresh_server)"
    by (simp add: fresh_server_def initial_connectionState_def)
  from h disconnected_requests_get_503
           [OF h, of "''123@s.whatsapp.net''" calm_send_env "Some ''hi''"]
  show ?thesis by simp
qed

subsection \<open>Reading the messages of a chat\<close>

lemma decode_constructor: "decodeURIComponent ''constructor'' = Inr ''constructor''"
  by (simp add: decodeURIComponent_def)

text \<open>
  C10. While connected, a request whose chat id decodes to a key with no cached messages
  is answered 200 and changes nothing. The \<open>messages\<close> field is the empty array exactly
  when the key is not one of the names every object inherits from \<open>Object.prototype\<close>;
  for those twelve names \<open>messagesStore[k]\<close> is the inherited value, which is truthy, so
  \<open>|| []\<close> does not replace it and the body does not carry \<open>messages:[]\<close>.
\<close>

theorem get_messages_unknown_chat:
  assumes "connected (connectionState st)"
    and "decodeURIComponent chatId = Inr decodedChatId"
    and "messagesStore st decodedChatId = None"
  shows "get_messages st chatId =
           (\<lparr>status = 200,
             json = MessageList (if decodedChatId \<in> set object_prototype_keys
                                 then Inherited decodedChatId else Own [])\<rparr>,
            st, [])"
  using assms by (simp add: get_messages_def lookup_def ok_def)

theorem get_messages_unknown_chat_witness:
  "connected (connectionState linked_server) \<and>
   decodeURIComponent ''constructor'' = Inr ''constructor'' \<and>
   messagesStore linked_server ''constructor'' = None \<and>
   get_messages linked_server ''constructor'' =
     (\<lparr>status = 200, json = MessageList (Inherited ''constructor'')\<rparr>, linked_server, [])"
proof -
  have c: "connected (connectionState linked_server)"
    by (simp add: linked_server_def fresh_server_def)
  have m: "messagesStore linked_server ''constructor'' = None"
    by (simp add: linked_server_def fresh_server_def)
  from c m decode_constructor get_messages_unknown_chat [OF c decode_constructor m]
  show ?thesis by (simp add: object_prototype_keys_def)
qed

subsection \<open>Validation of the pairing request\<close>

text \<open>
  C4. What the handler does with every request whose \<open>phoneNumber\<close> is not a string
  with at least 10 digits. A falsy value (absent, \<open>null\<close>, the empty string, \<open>0\<close>,
  \<open>false\<close>) is answered 400 'Phone number is required', and a string with fewer than 10
  digits left after stripping is answered 400 'Invalid phone number format'; in both
  cases the state is unchanged and no call is made. A truthy value that is not a string
  (the number 123) passes the first test and has no \<open>replace\<close> method: the call throws,
  the \<open>catch\<close> block answers 500 and writes \<open>connecting\<close> and \<open>error\<close> of
  \<open>connectionState\<close>. No connection attempt is made in any of the three cases.
\<close>

theorem short_phone_numbers_and_non_strings:
  assumes "\<forall>s. phone_field = Str s \<longrightarrow> length (strip_non_digits s) < 10"
  shows "request_pairing_code env st phone_field =
           (if \<not> truthy_val phone_field then
              (\<lparr>status = 400, json = Failure ''Phone number is required''\<rparr>, st, [])
            else if \<exists>s. phone_field = Str s then
              (\<lparr>status = 400, json = Failure ''Invalid phone number format''\<rparr>, st, [])
            else
              (\<lparr>status = 500, json = Failure ''phoneNumber.replace is not a function''\<rparr>,
               st\<lparr>connectionState :=
                    (connectionState st)\<lparr>connecting := False,
                       error := Some ''phoneNumber.replace is not a function''\<rparr>\<rparr>,
               []))"
  using assms
  by (cases phone_field)
     (auto simp: request_pairing_code_def pairing_failed_def failure_def Let_def)

theorem short_phone_numbers_and_non_strings_witness:
  "length (strip_non_digits ''123'') < 10 \<and>
   request_pairing_code unregistered_env linked_server (Str ''123'') =
     (\<lparr>status = 400, json = Failure ''Invalid phone number format''\<rparr>, linked_server, []) \<and>
   status (fst (request_pairing_code unregistered_env linked_server (Num 123))) = 500 \<and>
   error (connectionState (fst (snd (request_pairing_code unregistered_env linked_server
                                        (Num 123))))) =
     Some ''phoneNumber.replace is not a function'' \<and>
   error (connectionState linked_server) = None"
proof -
  have n: "\<forall>s. Num 123 = Str s \<longrightarrow> length (strip_non_digits s) < 10"
    by simp
  have t: "\<forall>s. Str ''123'' = Str s \<longrightarrow> length (strip_non_digits s) < 10"
    by (simp add: strip_non_digits_def)
  have e: "error (connectionState linked_server) = None"
    by (simp add: linked_server_def fresh_server_def initial_connectionState_def)
  have d: "length (strip_non_digits ''123'') < 10"
    by (simp add: strip_non_digits_def)
  from d e
    short_phone_numbers_and_non_strings [OF n, of unregistered_env linked_server]
    short_phone_numbers_and_non_strings [OF t, of unregistered_env linked_server]
  show ?thesis by simp
qed

subsection \<open>Sending a message\<close>




subsection \<open>The chat list\<close>

lemma find_chat_None:
  "find (\<lambda>c. chat_id c = chatId) cs = None \<longleftrightarrow> chatId \<notin> chat_id ` set cs"
  by (auto simp: find_None_iff)



lemma update_new:
  "chatId \<notin> chat_id ` set cs \<Longrightarrow> updateChatWithMessage chatId m cs = new_chat chatId m # cs"
  by (simp add: updateChatWithMessage_def find_chat_None [symmetric])

lemma update_head:
  "chat_id c = chatId \<Longrightarrow> updateChatWithMessage chatId m (c # cs) = touch m c # cs"
  by (simp add: updateChatWithMessage_def)

lemma upsert_one_chats:
  "upsert_one msg st = (Inr u, st') \<Longrightarrow>
     chats st' = updateChatWithMessage (remoteJid (key msg)) (messageData_of msg) (chats st)"
  by (auto simp: upsert_one_def Let_def split: sum.splits)


text \<open>
  C6. For a chat id that is not in the chat list, two calls of \<open>updateChatWithMessage\<close>
  with that id leave exactly one entry for it, in front of the old list, and its
  \<open>lastMessage\<close> (body and timestamp) and \<open>timestamp\<close> are those of the second message.
  A live batch of two inbound messages with that chat id that the handler processes to
  the end leaves the chat list in exactly this form.
\<close>

theorem two_messages_one_chat:
  assumes "chatId \<notin> chat_id ` set (chats st)"
  shows "updateChatWithMessage chatId m2 (updateChatWithMessage chatId m1 (chats st)) =
           \<lparr>chat_id = chatId, chat_name = before_at chatId,
            isGroup = endsWith chatId ''@g.us'', chat_timestamp = timestamp m2,
            lastMessage = Some \<lparr>lm_body = body m2, lm_timestamp = timestamp m2\<rparr>\<rparr> # chats st \<and>
         length (filter (\<lambda>c. chat_id c = chatId)
                   (updateChatWithMessage chatId m2
                      (updateChatWithMessage chatId m1 (chats st)))) = 1 \<and>
         (remoteJid (key msg1) = chatId \<and> remoteJid (key msg2) = chatId \<and>
          on_messages_upsert Notify [msg1, msg2] st = (Inr (), st') \<longrightarrow>
            chats st' =
              updateChatWithMessage chatId (messageData_of msg2)
                (updateChatWithMessage chatId (messageData_of msg1) (chats st)))"
proof -
  have "updateChatWithMessage chatId m2 (updateChatWithMessage chatId m1 (chats st)) =
          touch m2 (new_chat chatId m1) # chats st"
    using assms by (simp add: update_new update_head new_chat_def)
  moreover have "filter (\<lambda>c. chat_id c = chatId) (chats st) = []"
    using assms by (auto simp: filter_empty_conv)
  moreover have "chats st' =
      updateChatWithMessage chatId (messageData_of msg2)
        (updateChatWithMessage chatId (messageData_of msg1) (chats st))"
    if "remoteJid (key msg1) = chatId" "remoteJid (key msg2) = chatId"
      "on_messages_upsert Notify [msg1, msg2] st = (Inr (), st')"
  proof -
    obtain r1 st1 where s1: "upsert_one msg1 st = (r1, st1)"
      by (cases "upsert_one msg1 st")
    obtain r2 st2 where s2: "upsert_one msg2 st1 = (r2, st2)"
      by (cases "upsert_one msg2 st1")
    from that(3) s1 s2 have "r1 = Inr ()" "r2 = Inr ()" "st2 = st'"
      by (auto simp: on_messages_upsert_def split: sum.splits)
    with s1 s2 that(1,2) show ?thesis
      by (simp add: upsert_one_chats)
  qed
  ultimately show ?thesis
    by (simp add: touch_def new_chat_def)
qed

lemmas run_defs =
  on_messages_upsert_def upsert_one_def cache_message_def lookup_def object_prototype_keys_def
  fresh_server_def updateChatWithMessage_def new_chat_def touch_def messageData_of_def
  inbound_def conversation_of_def extended_text_of_def image_caption_of_def first_key_def
  before_at_def endsWith_def Let_def

theorem two_messages_one_chat_witness:
  "''a@s.whatsapp.net'' \<notin> chat_id ` set (chats fresh_server) \<and>
   remoteJid (key (inbound ''a@s.whatsapp.net'' ''M1'' ''one'' 100)) = ''a@s.whatsapp.net'' \<and>
   remoteJid (key (inbound ''a@s.whatsapp.net'' ''M3'' ''three'' 300)) = ''a@s.whatsapp.net'' \<and>
   fst (on_messages_upsert Notify
          [inbound ''a@s.whatsapp.net'' ''M1'' ''one'' 100,
           inbound ''a@s.whatsapp.net'' ''M3'' ''three'' 300] fresh_server) = Inr () \<and>
   chats (snd (on_messages_upsert Notify
                 [inbound ''a@s.whatsapp.net'' ''M1'' ''one'' 100,
                  inbound ''a@s.whatsapp.net'' ''M3'' ''three'' 300] fresh_server)) =
     [\<lparr>chat_id = ''a@s.whatsapp.net'', chat_name = ''a'', isGroup = False,
       chat_timestamp = 300,
       lastMessage = Some \<lparr>lm_body = ''three'', lm_timestamp = 300\<rparr>\<rparr>]"
proof -
  let ?a = "''a@s.whatsapp.net''"
  let ?m1 = "inbound ?a ''M1'' ''one'' 100"
  let ?m2 = "inbound ?a ''M3'' ''three'' 300"
  let ?r = "on_messages_upsert Notify [?m1, ?m2] fresh_server"
  have h: "?a \<notin> chat_id ` set (chats fresh_server)"
    by (simp add: fresh_server_def)
  have j1: "remoteJid (key ?m1) = ?a" and j2: "remoteJid (key ?m2) = ?a"
    by (simp_all add: inbound_def)
  have fin: "fst ?r = Inr ()"
    by (simp add: run_defs)
  then have run: "?r = (Inr (), snd ?r)"
    by (simp add: prod_eq_iff)
  from two_messages_one_chat
         [OF h, where ?m1.0 = "messageData_of ?m1" and ?m2.0 = "messageData_of ?m2"
            and ?msg1.0 = ?m1 and ?msg2.0 = ?m2 and st' = "snd ?r"]
       j1 j2 run
  have "chats (snd ?r) =
          \<lparr>chat_id = ?a, chat_name = before_at ?a, isGroup = endsWith ?a ''@g.us'',
           chat_timestamp = timestamp (messageData_of ?m2),
           lastMessage = Some \<lparr>lm_body = body (messageData_of ?m2),
                                lm_timestamp = timestamp (messageData_of ?m2)\<rparr>\<rparr> #
          chats fresh_server"
    by simp
  then have "chats (snd ?r) =
     [\<lparr>chat_id = ?a, chat_name = ''a'', isGroup = False, chat_timestamp = 300,
       lastMessage = Some \<lparr>lm_body = ''three'', lm_timestamp = 300\<rparr>\<rparr>]"
    by (simp add: messageData_of_def inbound_def conversation_of_def before_at_def
          endsWith_def fresh_server_def)
  with h j1 j2 fin show ?thesis by simp
qed


subsection \<open>The order of the chat list\<close>













subsection \<open>The body of an inbound message\<close>










subsection \<open>The pairing poll\<close>

lemma poll_code:
  "truthy (pairingCode (connectionState st)) \<Longrightarrow>
     poll wait a st = (ok (PairingCode (text_of (pairingCode (connectionState st)))), st, [])"
  by (subst poll.simps) simp

lemma poll_timeout:
  "\<not> truthy (pairingCode (connectionState st)) \<Longrightarrow> \<not> a < maxAttempts \<Longrightarrow>
     poll wait a st =
       (failure 408 ''Timeout waiting for pairing code. Please try again.'', st, [])"
  by (subst poll.simps) simp

lemma poll_error:
  "\<not> truthy (pairingCode (connectionState st)) \<Longrightarrow> a < maxAttempts \<Longrightarrow>
   truthy (error (connectionState st)) \<Longrightarrow>
     poll wait a st = (failure 500 (text_of (error (connectionState st))), st, [])"
  by (subst poll.simps) simp

lemma poll_connected:
  "\<not> truthy (pairingCode (connectionState st)) \<Longrightarrow> a < maxAttempts \<Longrightarrow>
   \<not> truthy (error (connectionState st)) \<Longrightarrow> connected (connectionState st) \<Longrightarrow>
     poll wait a st = (ok AlreadyConnected, st, [])"
  by (subst poll.simps) simp

lemma poll_quiet:
  "quiet st \<Longrightarrow> a < maxAttempts \<Longrightarrow>
     poll wait a st =
       (case poll wait (Suc a) (wait a st) of (res, st', t) \<Rightarrow> (res, st', Sleep 500 # t))"
  by (subst poll.simps) (simp add: quiet_def)

lemma poll_after_quiet:
  "k \<le> maxAttempts \<Longrightarrow> \<forall>j<k. quiet (observed wait st j) \<Longrightarrow>
     poll wait 0 st =
       (case poll wait k (observed wait st k) of
          (res, st', t) \<Rightarrow> (res, st', replicate k (Sleep 500) @ t))"
proof (induction k)
  case 0
  then show ?case by simp
next
  case (Suc k)
  then have "poll wait 0 st =
      (case poll wait k (observed wait st k) of
         (res, st', t) \<Rightarrow> (res, st', replicate k (Sleep 500) @ t))"
    by simp
  moreover from Suc.prems have "quiet (observed wait st k)" "k < maxAttempts"
    by auto
  ultimately show ?case
    by (simp add: poll_quiet replicate_app_Cons_same split: prod.splits)
qed

lemma poll_outcome:
  assumes "k \<le> maxAttempts" and "\<forall>j<k. quiet (observed wait st j)"
    and "k = maxAttempts \<or> \<not> quiet (observed wait st k)"
  shows "poll wait 0 st =
    (let s = observed wait st k; c = connectionState s in
       (if truthy (pairingCode c) then ok (PairingCode (text_of (pairingCode c)))
        else if k = maxAttempts then
          failure 408 ''Timeout waiting for pairing code. Please try again.''
        else if truthy (error c) then failure 500 (text_of (error c))
        else ok AlreadyConnected,
        s, replicate k (Sleep 500)))"
proof -
  let ?s = "observed wait st k"
  have "poll wait k ?s =
    (if truthy (pairingCode (connectionState ?s))
     then ok (PairingCode (text_of (pairingCode (connectionState ?s))))
     else if k = maxAttempts then
       failure 408 ''Timeout waiting for pairing code. Please try again.''
     else if truthy (error (connectionState ?s))
     then failure 500 (text_of (error (connectionState ?s)))
     else ok AlreadyConnected, ?s, [])"
    using assms(1,3)
    by (auto simp: poll_code poll_timeout poll_error poll_connected quiet_def)
  with poll_after_quiet [OF assms(1,2)] show ?thesis
    by (simp add: Let_def)
qed

lemma request_polls:
  assumes "10 \<le> length (strip_non_digits s)"
    and "connectToWhatsApp (strip_non_digits s) env (start_pairing (strip_non_digits s) st) =
           (Inr (), st2, t)"
  shows "request_pairing_code env st (Str s) =
           (case poll (poll_wait env) 0 st2 of (res, st3, t') \<Rightarrow> (res, st3, t @ t'))"
proof -
  from assms(1) have "s \<noteq> []"
    by (auto simp: strip_non_digits_def)
  with assms show ?thesis
    by (simp add: request_pairing_code_def Let_def)
qed


lemma first_decisive_check:
  "\<exists>k\<le>(n::nat). (\<forall>j<k. quiet (f j)) \<and> (k = n \<or> \<not> quiet (f k))"
proof (induction n)
  case 0
  then show ?case by simp
next
  case (Suc n)
  then obtain k where k: "k \<le> n" "\<forall>j<k. quiet (f j)" "k = n \<or> \<not> quiet (f k)"
    by blast
  show ?case
  proof (cases "quiet (f k)")
    case True
    with k have "\<forall>j<Suc n. quiet (f j)"
      by (auto simp: less_Suc_eq)
    then show ?thesis by (intro exI [of _ "Suc n"]) simp
  next
    case False
    with k show ?thesis by (intro exI [of _ k]) simp
  qed
qed

lemma request_outcome:
  assumes "10 \<le> length (strip_non_digits s)"
    and "connectToWhatsApp (strip_non_digits s) env (start_pairing (strip_non_digits s) st) =
           (Inr (), st2, t)"
    and "k \<le> 30" and "\<forall>j<k. quiet (observed (poll_wait env) st2 j)"
    and "k = 30 \<or> \<not> quiet (observed (poll_wait env) st2 k)"
  shows "request_pairing_code env st (Str s) =
    (let seen = observed (poll_wait env) st2 k; c = connectionState seen in
       (if truthy (pairingCode c)
        then \<lparr>status = 200, json = PairingCode (text_of (pairingCode c))\<rparr>
        else if k = 30
        then \<lparr>status = 408,
              json = Failure ''Timeout waiting for pairing code. Please try again.''\<rparr>
        else if truthy (error c)
        then \<lparr>status = 500, json = Failure (text_of (error c))\<rparr>
        else \<lparr>status = 200, json = AlreadyConnected\<rparr>,
        seen, t @ replicate k (Sleep 500)))"
proof -
  from assms(3-5) have "poll (poll_wait env) 0 st2 =
    (let s = observed (poll_wait env) st2 k; c = connectionState s in
       (if truthy (pairingCode c) then ok (PairingCode (text_of (pairingCode c)))
        else if k = maxAttempts then
          failure 408 ''Timeout waiting for pairing code. Please try again.''
        else if truthy (error c) then failure 500 (text_of (error c))
        else ok AlreadyConnected,
        s, replicate k (Sleep 500)))"
    by (intro poll_outcome) (simp_all add: maxAttempts_def)
  with request_polls [OF assms(1,2)] show ?thesis
    by (simp add: Let_def ok_def failure_def maxAttempts_def)
qed

lemmas pairing_defs =
  connectToWhatsApp_def request_code_def start_pairing_def connect_failed_def
  unregistered_env_def refusing_env_def registered_env_def opening_env_def
  late_logout_env_def fresh_server_def initial_connectionState_def strip_non_digits_def
  quiet_def on_connection_update_def loadChats_def opened_def closed_logged_out_def Let_def

lemma observed_idle: "observed (\<lambda>k st. st) st j = st"
  by (induction j) simp_all

text \<open>
  C2 (as amended). After a valid request whose connection attempt returns, the handler
  checks the state, waits 500 ms, checks again, and so on; the checks are numbered from 0
  and there are never more than 30 waits. A check is quiet when it sees no populated
  pairing code, no populated error and no connection. Let \<open>k\<close> be the first check that
  is not quiet, or 30 when the checks 0 to 29 are all quiet; there always is such a
  \<open>k\<close>. The response is decided by the state seen at check \<open>k\<close>, in this order: a
  populated pairing code gives 200 with the code; otherwise, when \<open>k\<close> is 30, the answer
  is 408; otherwise a populated error gives 500 with that error as message; otherwise the
  state is connected and the answer is 200 'Already connected'. The handler has then
  waited exactly \<open>k\<close> times. So an error is answered with 500 when it is seen, with no
  pairing code, at one of the checks 0 to 29; the check after the last wait looks at the
  pairing code only.
\<close>

theorem pairing_poll_checks_in_priority_order:
  assumes "10 \<le> length (strip_non_digits s)"
    and "connectToWhatsApp (strip_non_digits s) env (start_pairing (strip_non_digits s) st) =
           (Inr (), st2, t)"
  shows "(\<exists>k\<le>30. (\<forall>j<k. quiet (observed (poll_wait env) st2 j)) \<and>
                 (k = 30 \<or> \<not> quiet (observed (poll_wait env) st2 k))) \<and>
         (\<forall>k\<le>30. (\<forall>j<k. quiet (observed (poll_wait env) st2 j)) \<and>
                 (k = 30 \<or> \<not> quiet (observed (poll_wait env) st2 k)) \<longrightarrow>
            request_pairing_code env st (Str s) =
              (let seen = observed (poll_wait env) st2 k; c = connectionState seen in
                 (if truthy (pairingCode c)
                  then \<lparr>status = 200, json = PairingCode (text_of (pairingCode c))\<rparr>
                  else if k = 30
                  then \<lparr>status = 408,
                        json = Failure ''Timeout waiting for pairing code. Please try again.''\<rparr>
                  else if truthy (error c)
                  then \<lparr>status = 500, json = Failure (text_of (error c))\<rparr>
                  else \<lparr>status = 200, json = AlreadyConnected\<rparr>,
                  seen, t @ replicate k (Sleep 500))))"
  using first_decisive_check [of 30 "observed (poll_wait env) st2"]
    request_outcome [OF assms]
  by blast

theorem pairing_poll_checks_in_priority_order_witness:
  "10 \<le> length (strip_non_digits ''+1 (555) 010-9999'') \<and>
   fst (request_pairing_code unregistered_env fresh_server (Str ''+1 (555) 010-9999'')) =
     \<lparr>status = 200, json = PairingCode ''ABCD1234''\<rparr> \<and>
   fst (request_pairing_code refusing_env fresh_server (Str ''+1 (555) 010-9999'')) =
     \<lparr>status = 500, json = Failure ''rate-overlimit''\<rparr> \<and>
   fst (request_pairing_code opening_env fresh_server (Str ''+1 (555) 010-9999'')) =
     \<lparr>status = 200, json = AlreadyConnected\<rparr> \<and>
   snd (snd (request_pairing_code opening_env fresh_server (Str ''+1 (555) 010-9999''))) =
     [UseMultiFileAuthState, FetchLatestBaileysVersion, MakeWASocket, Sleep 500]"
proof -
  let ?s = "''+1 (555) 010-9999''"
  have v: "10 \<le> length (strip_non_digits ?s)"
    by (simp add: strip_non_digits_def)
  have code: "fst (request_pairing_code unregistered_env fresh_server (Str ?s)) =
                \<lparr>status = 200, json = PairingCode ''ABCD1234''\<rparr>"
  proof -
    let ?c = "connectToWhatsApp (strip_non_digits ?s) unregistered_env
                (start_pairing (strip_non_digits ?s) fresh_server)"
    have "fst ?c = Inr ()"
      by (simp add: pairing_defs)
    then have conn: "?c = (Inr (), fst (snd ?c), snd (snd ?c))"
      by (simp add: prod_eq_iff)
    have c0: "pairingCode (connectionState (fst (snd ?c))) = Some ''ABCD1234''"
      by (simp add: pairing_defs)
    then have "\<not> quiet (observed (poll_wait unregistered_env) (fst (snd ?c)) 0)"
      by (simp add: quiet_def)
    with pairing_poll_checks_in_priority_order [OF v conn] c0
    have "request_pairing_code unregistered_env fresh_server (Str ?s) =
            (\<lparr>status = 200, json = PairingCode ''ABCD1234''\<rparr>, fst (snd ?c), snd (snd ?c))"
      by (auto simp: Let_def dest!: conjunct2 spec [of _ 0])
    then show ?thesis by simp
  qed
  have err: "fst (request_pairing_code refusing_env fresh_server (Str ?s)) =
               \<lparr>status = 500, json = Failure ''rate-overlimit''\<rparr>"
  proof -
    let ?c = "connectToWhatsApp (strip_non_digits ?s) refusing_env
                (start_pairing (strip_non_digits ?s) fresh_server)"
    have "fst ?c = Inr ()"
      by (simp add: pairing_defs)
    then have conn: "?c = (Inr (), fst (snd ?c), snd (snd ?c))"
      by (simp add: prod_eq_iff)
    have c0: "pairingCode (connectionState (fst (snd ?c))) = None"
             "error (connectionState (fst (snd ?c))) = Some ''rate-overlimit''"
      by (simp_all add: pairing_defs)
    then have "\<not> quiet (observed (poll_wait refusing_env) (fst (snd ?c)) 0)"
      by (simp add: quiet_def)
    with pairing_poll_checks_in_priority_order [OF v conn] c0
    have "request_pairing_code refusing_env fresh_server (Str ?s) =
            (\<lparr>status = 500, json = Failure ''rate-overlimit''\<rparr>, fst (snd ?c), snd (snd ?c))"
      by (auto simp: Let_def dest!: conjunct2 spec [of _ 0])
    then show ?thesis by simp
  qed
  have opn: "request_pairing_code opening_env fresh_server (Str ?s) =
               (\<lparr>status = 200, json = AlreadyConnected\<rparr>,
                observed (poll_wait opening_env)
                  (fst (snd (connectToWhatsApp (strip_non_digits ?s) opening_env
                     (start_pairing (strip_non_digits ?s) fresh_server)))) 1,
                [UseMultiFileAuthState, FetchLatestBaileysVersion, MakeWASocket, Sleep 500])"
  proof -
    let ?c = "connectToWhatsApp (strip_non_digits ?s) opening_env
                (start_pairing (strip_non_digits ?s) fresh_server)"
    let ?w = "poll_wait opening_env"
    have "fst ?c = Inr ()"
      by (simp add: pairing_defs)
    then have conn: "?c = (Inr (), fst (snd ?c), snd (snd ?c))"
      by (simp add: prod_eq_iff)
    have t: "snd (snd ?c) = [UseMultiFileAuthState, FetchLatestBaileysVersion, MakeWASocket]"
      by (simp add: pairing_defs)
    have w: "?w = (\<lambda>k st. if k = 0 then on_connection_update (Inr []) opened st else st)"
      by (simp add: opening_env_def registered_env_def unregistered_env_def)
    have q0: "\<forall>j<1. quiet (observed ?w (fst (snd ?c)) j)"
      by (simp add: pairing_defs)
    have o1: "observed ?w (fst (snd ?c)) 1 = on_connection_update (Inr []) opened (fst (snd ?c))"
      by (simp add: w)
    have c1: "connectionState (observed ?w (fst (snd ?c)) 1) =
                (connectionState (fst (snd ?c)))\<lparr>connected := True, connecting := False,
                   pairingCode := None, qr := None, error := None\<rparr>"
      unfolding o1 by (simp add: pairing_defs)
    then have q1: "\<not> quiet (observed ?w (fst (snd ?c)) 1)"
      by (simp add: quiet_def)
    from pairing_poll_checks_in_priority_order [OF v conn]
    have "\<forall>k\<le>30. (\<forall>j<k. quiet (observed ?w (fst (snd ?c)) j)) \<and>
                 (k = 30 \<or> \<not> quiet (observed ?w (fst (snd ?c)) k)) \<longrightarrow>
            request_pairing_code opening_env fresh_server (Str ?s) =
              (let seen = observed ?w (fst (snd ?c)) k; c = connectionState seen in
                 (if truthy (pairingCode c)
                  then \<lparr>status = 200, json = PairingCode (text_of (pairingCode c))\<rparr>
                  else if k = 30
                  then \<lparr>status = 408,
                        json = Failure ''Timeout waiting for pairing code. Please try again.''\<rparr>
                  else if truthy (error c)
                  then \<lparr>status = 500, json = Failure (text_of (error c))\<rparr>
                  else \<lparr>status = 200, json = AlreadyConnected\<rparr>,
                  seen, snd (snd ?c) @ replicate k (Sleep 500)))"
      by (rule conjunct2)
    from this [rule_format, of 1] q0 q1 c1 t show ?thesis
      by (simp add: Let_def)
  qed
  from v code err opn show ?thesis by simp
qed


text \<open>
  C2 as stated fails: when the connection is closed as logged out during the thirtieth
  wait, the error field is 'Logged out', there is no pairing code and the state is not
  connected, and the endpoint answers 408, not 500.
\<close>

theorem pairing_poll_late_error_counterexample:
  "status (fst (request_pairing_code late_logout_env fresh_server (Str ''15550109999''))) = 408 \<and>
   error (connectionState
            (fst (snd (request_pairing_code late_logout_env fresh_server
                         (Str ''15550109999''))))) = Some ''Logged out'' \<and>
   pairingCode (connectionState
            (fst (snd (request_pairing_code late_logout_env fresh_server
                         (Str ''15550109999''))))) = None \<and>
   \<not> connected (connectionState
            (fst (snd (request_pairing_code late_logout_env fresh_server
                         (Str ''15550109999'')))))"
proof -
  let ?s = "''15550109999''"
  let ?c = "connectToWhatsApp (strip_non_digits ?s) late_logout_env
              (start_pairing (strip_non_digits ?s) fresh_server)"
  let ?w = "poll_wait late_logout_env"
  let ?st2 = "fst (snd ?c)"
  have v: "10 \<le> length (strip_non_digits ?s)"
    by (simp add: strip_non_digits_def)
  have "fst ?c = Inr ()"
    by (simp add: pairing_defs)
  then have conn: "?c = (Inr (), ?st2, snd (snd ?c))"
    by (simp add: prod_eq_iff)
  have w: "?w = (\<lambda>k st. if k = 29 then on_connection_update (Inr []) closed_logged_out st else st)"
    by (simp add: late_logout_env_def registered_env_def unregistered_env_def)
  have idle: "j \<le> 29 \<Longrightarrow> observed ?w ?st2 j = ?st2" for j
    by (induction j) (simp_all add: w)
  have q: "quiet ?st2"
    by (simp add: pairing_defs)
  with idle have q30: "\<forall>j<30. quiet (observed ?w ?st2 j)"
    by simp
  have "observed ?w ?st2 (Suc 29) = ?w 29 (observed ?w ?st2 29)"
    by (rule observed.simps)
  with idle [of 29]
  have last: "observed ?w ?st2 30 = on_connection_update (Inr []) closed_logged_out ?st2"
    by (simp add: w)
  have late: "connectionState (on_connection_update (Inr []) closed_logged_out ?st2) =
          (connectionState ?st2)\<lparr>connected := False, connecting := False,
             error := Some ''Logged out''\<rparr>"
    by (simp add: on_connection_update_def closed_logged_out_def Let_def)
  from q have nocode: "pairingCode (connectionState ?st2) = None"
    by (simp add: pairing_defs)
  from request_outcome [OF v conn, of 30] q30 last late nocode
  show ?thesis by (simp add: Let_def)
qed



text \<open>
  C3. After a valid request whose connection attempt returns, if the checks 0 to 29 of
  the poll all see no populated pairing code, no populated error and no connection, and
  the check after the thirtieth wait sees no populated pairing code, the endpoint answers
  408 with \<open>success:false\<close> and the timeout message (so neither 200 nor 500), after
  exactly 30 waits of 500 ms.
\<close>

theorem pairing_poll_times_out_with_408:
  assumes "10 \<le> length (strip_non_digits s)"
    and "connectToWhatsApp (strip_non_digits s) env (start_pairing (strip_non_digits s) st) =
           (Inr (), st2, t)"
    and "\<forall>j<30. quiet (observed (poll_wait env) st2 j)"
    and "\<not> truthy (pairingCode (connectionState (observed (poll_wait env) st2 30)))"
  shows "request_pairing_code env st (Str s) =
           (\<lparr>status = 408,
             json = Failure ''Timeout waiting for pairing code. Please try again.''\<rparr>,
            observed (poll_wait env) st2 30, t @ replicate 30 (Sleep 500))"
  using request_outcome [OF assms(1,2), of 30] assms(3,4)
  by (simp add: Let_def)


theorem pairing_poll_times_out_with_408_witness:
  "10 \<le> length (strip_non_digits ''+1 (555) 010-9999'') \<and>
   fst (connectToWhatsApp (strip_non_digits ''+1 (555) 010-9999'') registered_env
          (start_pairing (strip_non_digits ''+1 (555) 010-9999'') fresh_server)) = Inr () \<and>
   fst (request_pairing_code registered_env fresh_server (Str ''+1 (555) 010-9999'')) =
     \<lparr>status = 408,
      json = Failure ''Timeout waiting for pairing code. Please try again.''\<rparr> \<and>
   snd (snd (request_pairing_code registered_env fresh_server (Str ''+1 (555) 010-9999''))) =
     [UseMultiFileAuthState, FetchLatestBaileysVersion, MakeWASocket] @
     replicate 30 (Sleep 500)"
proof -
  let ?s = "''+1 (555) 010-9999''"
  let ?c = "connectToWhatsApp (strip_non_digits ?s) registered_env
              (start_pairing (strip_non_digits ?s) fresh_server)"
  have v: "10 \<le> length (strip_non_digits ?s)"
    by (simp add: strip_non_digits_def)
  have r: "fst ?c = Inr ()"
    by (simp add: pairing_defs)
  then have conn: "?c = (Inr (), fst (snd ?c), snd (snd ?c))"
    by (simp add: prod_eq_iff)
  have w: "poll_wait registered_env = (\<lambda>k st. st)"
    by (simp add: registered_env_def unregistered_env_def)
  have q: "quiet (fst (snd ?c))"
    by (simp add: pairing_defs)
  then have q30: "\<forall>j<30. quiet (observed (poll_wait registered_env) (fst (snd ?c)) j)"
    by (simp add: w observed_idle)
  from q have c30: "\<not> truthy (pairingCode (connectionState
                      (observed (poll_wait registered_env) (fst (snd ?c)) 30)))"
    by (simp add: w observed_idle quiet_def)
  have t: "snd (snd ?c) = [UseMultiFileAuthState, FetchLatestBaileysVersion, MakeWASocket]"
    by (simp add: pairing_defs)
  from v r pairing_poll_times_out_with_408 [OF v conn q30 c30] t
  show ?thesis by simp
qed

end
